theory Spec2Isabelle
  imports Complex_Main "HOL-Library.Char_ord" "HOL-Library.List_Lexorder"
begin

section \<open>JavaScript string primitives used by the helpers\<close>

text \<open>
  Strings are lists of code units. Only ASCII code units are ever inspected by the
  functions below, so the embedding does not depend on the width of a code unit.
\<close>

definition dquote :: char where
  "dquote = CHR 0x22"

definition caret :: char where
  "caret = CHR 0x5E"

text \<open>\<^verbatim>\<open>s.startsWith(p)\<close> and \<^verbatim>\<open>s.endsWith(p)\<close>.\<close>

definition startsWith :: "string \<Rightarrow> string \<Rightarrow> bool" where
  "startsWith s p = (take (length p) s = p)"

definition endsWith :: "string \<Rightarrow> string \<Rightarrow> bool" where
  "endsWith s p = (length p \<le> length s \<and> drop (length s - length p) s = p)"

text \<open>
  \<^verbatim>\<open>s.slice(b, e)\<close>: a negative index counts from the end, both indices are clamped to
  the string, and an empty range gives the empty string.
\<close>

definition slice :: "string \<Rightarrow> int \<Rightarrow> int \<Rightarrow> string" where
  "slice s b e =
     (let n = int (length s);
          from = (if b < 0 then max (n + b) 0 else min b n);
          to = (if e < 0 then max (n + e) 0 else min e n)
      in take (nat (to - from)) (drop (nat from) s))"

text \<open>
  \<^verbatim>\<open>s.replace(/[cls]/g, r)\<close> for a character class \<open>cls\<close>: every code unit of the
  class is replaced, from left to right, by the replacement computed from it
  (\<^verbatim>\<open>$&\<close> is the matched code unit); all others are kept.
\<close>

definition replaceClass :: "string \<Rightarrow> (char \<Rightarrow> string) \<Rightarrow> string \<Rightarrow> string" where
  "replaceClass cls r s = concat (map (\<lambda>c. if c \<in> set cls then r c else [c]) s)"

section \<open>Shell escaping for cmd.exe\<close>

definition cmdMetaChars :: string where
  "cmdMetaChars = ''()%!^<>&|''"

text \<open>
  \<^verbatim>\<open>windowsCmdExeEscapeArg(arg)\<close>:
  \<^verbatim>\<open>if (arg.length > 1 && arg.startsWith('"') && arg.endsWith('"')) arg = arg.slice(1, -1);\<close>
  \<^verbatim>\<open>arg = arg.replace(/[()%!^<>&|]/g, '^$&');\<close>
  then the result of replacing every double quote by two, between two double quotes.
\<close>

definition windowsCmdExeEscapeArg :: "string \<Rightarrow> string" where
  "windowsCmdExeEscapeArg arg =
     (let arg1 = (if length arg > 1 \<and> startsWith arg [dquote] \<and> endsWith arg [dquote]
                  then slice arg 1 (- 1) else arg);
          arg2 = replaceClass cmdMetaChars (\<lambda>c. [caret, c]) arg1
      in [dquote] @ replaceClass [dquote] (\<lambda>c. [dquote, dquote]) arg2 @ [dquote])"

subsection \<open>The four steps of the specification\<close>

text \<open>
  The steps as the specification words them, each written on its own by recursion
  over the argument, to be compared with the function above.
\<close>

definition spec_fully_quoted :: "string \<Rightarrow> bool" where
  "spec_fully_quoted s = (length s > 1 \<and> hd s = dquote \<and> last s = dquote)"

definition spec_strip_outer :: "string \<Rightarrow> string" where
  "spec_strip_outer s = (if spec_fully_quoted s then butlast (tl s) else s)"

definition spec_is_meta :: "char \<Rightarrow> bool" where
  "spec_is_meta c =
     (c = CHR ''('' \<or> c = CHR '')'' \<or> c = CHR ''%'' \<or> c = CHR ''!'' \<or> c = caret \<or>
      c = CHR ''<'' \<or> c = CHR ''>'' \<or> c = CHR ''&'' \<or> c = CHR ''|'')"

primrec spec_caret_escape :: "string \<Rightarrow> string" where
  "spec_caret_escape [] = []"
| "spec_caret_escape (c # cs) =
     (if spec_is_meta c then caret # c # spec_caret_escape cs else c # spec_caret_escape cs)"

primrec spec_double_quotes :: "string \<Rightarrow> string" where
  "spec_double_quotes [] = []"
| "spec_double_quotes (c # cs) =
     (if c = dquote then dquote # dquote # spec_double_quotes cs
      else c # spec_double_quotes cs)"

definition spec_wrap :: "string \<Rightarrow> string" where
  "spec_wrap s = dquote # s @ [dquote]"

subsection \<open>The quoting rules of cmd.exe named by the specification\<close>

text \<open>
  Modelled from the spec: the reader of an escaped argument. cmd.exe is not part of the
  repository and the source has no reader; the specification names the rules (caret
  escape, doubled quote). The text must stand between one pair of double quotes;
  inside, a caret makes the metacharacter after it literal, two double quotes stand for
  one, and every other code unit stands for itself. A caret before anything else, a
  lone caret or a lone double quote is not the output of such quoting and is rejected.
\<close>

fun spec_cmd_unquote :: "string \<Rightarrow> string option" where
  "spec_cmd_unquote [] = Some []"
| "spec_cmd_unquote [c] = (if c = caret \<or> c = dquote then None else Some [c])"
| "spec_cmd_unquote (c # d # r) =
     (if c = caret then
        (if spec_is_meta d then map_option ((#) d) (spec_cmd_unquote r) else None)
      else if c = dquote then
        (if d = dquote then map_option ((#) dquote) (spec_cmd_unquote r) else None)
      else map_option ((#) c) (spec_cmd_unquote (d # r)))"

definition spec_cmd_parse :: "string \<Rightarrow> string option" where
  "spec_cmd_parse s =
     (if spec_fully_quoted s then spec_cmd_unquote (butlast (tl s)) else None)"

section \<open>Optional parameters and the process environment\<close>

text \<open>
  A parameter with a default value is an option: \<open>None\<close> is the omitted argument.
  The environment \<^verbatim>\<open>process.env\<close> maps a variable's name to its value when it is set.
\<close>

definition defaultTo :: "'a \<Rightarrow> 'a option \<Rightarrow> 'a" where
  "defaultTo d v = (case v of None \<Rightarrow> d | Some x \<Rightarrow> x)"

type_synonym env = "string \<rightharpoonup> string"

text \<open>Truthiness of a string that may be undefined: defined and not empty.\<close>

definition truthyStr :: "string option \<Rightarrow> bool" where
  "truthyStr v = (case v of None \<Rightarrow> False | Some s \<Rightarrow> s \<noteq> [])"

section \<open>Dialect selection: \<^verbatim>\<open>isWindowsComExeShell\<close> and \<^verbatim>\<open>shellEscape\<close>\<close>

definition isWindowsComExeShell :: "env \<Rightarrow> bool" where
  "isWindowsComExeShell e =
     (e ''SHELL'' = None \<and>
      (case e ''ComSpec'' of None \<Rightarrow> False | Some c \<Rightarrow> endsWith c ''cmd.exe''))"

text \<open>
  The local constant \<^verbatim>\<open>isCmdExe\<close> of \<^verbatim>\<open>shellEscape\<close>:
  \<^verbatim>\<open>detectShell ? isWindowsComExeShell() : process.platform === 'win32'\<close>.
\<close>

definition isCmdExe :: "env \<Rightarrow> string \<Rightarrow> bool option \<Rightarrow> bool" where
  "isCmdExe e platform detectShell =
     (if defaultTo False detectShell then isWindowsComExeShell e else platform = ''win32'')"

text \<open>
  \<^verbatim>\<open>shellEscape(args, detectShell = false)\<close>. The POSIX escaper is the package
  \<^verbatim>\<open>shell-escape\<close>, which is not part of the repository: it is the parameter
  \<open>shellEscapeFunc\<close>, called on the one-element list of each argument.
\<close>

definition shellEscape ::
  "(string list \<Rightarrow> string) \<Rightarrow> env \<Rightarrow> string \<Rightarrow> string list \<Rightarrow> bool option \<Rightarrow> string list" where
  "shellEscape shellEscapeFunc e platform args detectShell =
     (if isCmdExe e platform detectShell
      then map (\<lambda>v. windowsCmdExeEscapeArg v) args
      else map (\<lambda>v. shellEscapeFunc [v]) args)"

section \<open>Numbers of the runtime\<close>



definition pow2 :: "int \<Rightarrow> rat" where
  "pow2 k = (if 0 \<le> k then 2 ^ nat k else 1 / 2 ^ nat (- k))"

text \<open>The number of binary digits of a natural number.\<close>

fun bitLength :: "nat \<Rightarrow> nat" where
  "bitLength n = (if n = 0 then 0 else Suc (bitLength (n div 2)))"

declare bitLength.simps [simp del]

text \<open>
  The binary exponent of a positive rational \<open>q\<close>: the \<open>e\<close> with
  \<open>2 ^ e \<le> q < 2 ^ (e + 1)\<close>, read off the digits of \<open>\<lfloor>q\<rfloor>\<close> when \<open>q \<ge> 1\<close> and of
  \<open>\<lceil>1 / q\<rceil> - 1\<close> otherwise.
\<close>

definition binaryExponent :: "rat \<Rightarrow> int" where
  "binaryExponent q =
     (if 1 \<le> q then int (bitLength (nat \<lfloor>q\<rfloor>)) - 1
      else - int (bitLength (nat (\<lceil>1 / q\<rceil> - 1))))"






section \<open>The retry loop\<close>














section \<open>The manual-order comparator\<close>

text \<open>
  \<^verbatim>\<open>array.findIndex(pred)\<close>: the first index whose element satisfies the predicate
  (called with the element, its index and the array), or \<open>-1\<close>.
\<close>

fun findIndexFrom :: "('u \<Rightarrow> nat \<Rightarrow> 'u list \<Rightarrow> bool) \<Rightarrow> 'u list \<Rightarrow> nat \<Rightarrow> 'u list \<Rightarrow> int" where
  "findIndexFrom pred array k [] = - 1"
| "findIndexFrom pred array k (x # xs) =
     (if pred x k array then int k else findIndexFrom pred array (Suc k) xs)"

definition findIndex :: "'u list \<Rightarrow> ('u \<Rightarrow> nat \<Rightarrow> 'u list \<Rightarrow> bool) \<Rightarrow> int" where
  "findIndex array pred = findIndexFrom pred array 0 array"

text \<open>
  The comparator returned by \<^verbatim>\<open>getManualSortCompareFunction\<close>. The operators
  \<^verbatim>\<open><\<close> and \<^verbatim>\<open>></\<close> of the source are those of the element type.
\<close>

definition getManualSortCompareFunction ::
  "'u list \<Rightarrow> ('t \<Rightarrow> 'u \<Rightarrow> nat \<Rightarrow> 'u list \<Rightarrow> bool) \<Rightarrow> ('t::ord) \<Rightarrow> 't \<Rightarrow> int" where
  "getManualSortCompareFunction manuallySortedArray equalityFunc a b =
     (let indexA = findIndex manuallySortedArray
                     (\<lambda>x index array. equalityFunc a x index array);
          indexB = findIndex manuallySortedArray
                     (\<lambda>x index array. equalityFunc b x index array)
      in if indexA \<ge> 0 \<and> indexB \<ge> 0 then indexA - indexB
         else if indexA < 0 \<and> indexB < 0 then (if a < b then - 1 else if a > b then 1 else 0)
         else (if indexA < 0 then 1 else - 1))"

text \<open>
  \<^verbatim>\<open>array.sort(compare)\<close> of the runtime, as a stable insertion sort: an element goes
  before the first one it does not compare greater than.
\<close>

fun insertBy :: "('t \<Rightarrow> 't \<Rightarrow> int) \<Rightarrow> 't \<Rightarrow> 't list \<Rightarrow> 't list" where
  "insertBy cmp x [] = [x]"
| "insertBy cmp x (y # ys) = (if cmp x y \<le> 0 then x # y # ys else y # insertBy cmp x ys)"

fun sortBy :: "('t \<Rightarrow> 't \<Rightarrow> int) \<Rightarrow> 't list \<Rightarrow> 't list" where
  "sortBy cmp [] = []"
| "sortBy cmp (x # xs) = insertBy cmp x (sortBy cmp xs)"

text \<open>
  The first match of a candidate in the reference list, said without the search:
  index \<open>i\<close> matches and no earlier index does; or no index matches.
\<close>

definition first_match_at :: "'u list \<Rightarrow> ('t \<Rightarrow> 'u \<Rightarrow> nat \<Rightarrow> 'u list \<Rightarrow> bool) \<Rightarrow> 't \<Rightarrow> nat \<Rightarrow> bool" where
  "first_match_at ref eq a i =
     (i < length ref \<and> eq a (ref ! i) i ref \<and> (\<forall>k < i. \<not> eq a (ref ! k) k ref))"

definition not_found :: "'u list \<Rightarrow> ('t \<Rightarrow> 'u \<Rightarrow> nat \<Rightarrow> 'u list \<Rightarrow> bool) \<Rightarrow> 't \<Rightarrow> bool" where
  "not_found ref eq a = (\<forall>k < length ref. \<not> eq a (ref ! k) k ref)"

section \<open>Printing numbers and joining strings\<close>

text \<open>
  An integer inside a template literal is printed in decimal, a negative one after a
  minus sign. \<^verbatim>\<open>xs.join(sep)\<close> puts the separator between the elements.
\<close>

definition digitChar :: "nat \<Rightarrow> char" where
  "digitChar d = ''0123456789'' ! d"

fun showNat :: "nat \<Rightarrow> string" where
  "showNat n = (if n < 10 then [digitChar n] else showNat (n div 10) @ [digitChar (n mod 10)])"

declare showNat.simps [simp del]

definition showInt :: "int \<Rightarrow> string" where
  "showInt i = (if i < 0 then CHR ''-'' # showNat (nat (- i)) else showNat (nat i))"

fun join :: "string \<Rightarrow> string list \<Rightarrow> string" where
  "join sep [] = []"
| "join sep [x] = x"
| "join sep (x # y # ys) = x @ sep @ join sep (y # ys)"

text \<open>
  A variable that may be \<^verbatim>\<open>undefined\<close> (never assigned), \<^verbatim>\<open>null\<close> or a value, as
  the exit code and the signal of \<^verbatim>\<open>whichSpawn\<close> are; how a template literal prints
  it, and its truthiness.
\<close>

datatype 'a nullable = Undefined | Null | Value 'a

fun showNullable :: "('a \<Rightarrow> string) \<Rightarrow> 'a nullable \<Rightarrow> string" where
  "showNullable sh Undefined = ''undefined''"
| "showNullable sh Null = ''null''"
| "showNullable sh (Value v) = sh v"

fun truthyCode :: "int nullable \<Rightarrow> bool" where
  "truthyCode (Value c) = (c \<noteq> 0)"
| "truthyCode _ = False"

fun truthySignal :: "string nullable \<Rightarrow> bool" where
  "truthySignal (Value s) = (s \<noteq> [])"
| "truthySignal _ = False"

section \<open>The executable locator \<^verbatim>\<open>which\<close>\<close>

text \<open>
  A thrown error is an \<^verbatim>\<open>ExpectedError\<close> with its message, or any other error with
  its \<^verbatim>\<open>code\<close> property (when it has one) and its message.
\<close>

datatype js_error = ExpectedError string | Error "string option" string

fun error_code :: "js_error \<Rightarrow> string option" where
  "error_code (ExpectedError m) = None"
| "error_code (Error c m) = c"

definition squote :: char where
  "squote = CHR 0x27"

text \<open>
  \<^verbatim>\<open>which(program, rejectOnMissing = true)\<close>. The lookup of the npm package
  \<^verbatim>\<open>which\<close> is the parameter \<open>whichMod\<close>: the path found, or the error it rejects with.
\<close>

definition which ::
  "(string \<Rightarrow> js_error + string) \<Rightarrow> string \<Rightarrow> bool option \<Rightarrow> js_error + string" where
  "which whichMod program rejectOnMissing =
     (case whichMod program of
        Inr programPath \<Rightarrow> Inr programPath
      | Inl err \<Rightarrow>
          if error_code err = Some ''ENOENT'' then
            (if defaultTo True rejectOnMissing
             then Inl (ExpectedError
                        ([squote] @ program @ [squote] @ '' program not found. Is it installed?''))
             else Inr [])
          else Inl err)"

section \<open>The process runner \<^verbatim>\<open>whichSpawn\<close>\<close>

text \<open>
  What the spawned child does to the promise of \<^verbatim>\<open>whichSpawn\<close>: an \<^verbatim>\<open>error\<close> event
  (or a synchronous failure of \<^verbatim>\<open>spawn\<close>) rejects it with an error, given here by the
  text \<^verbatim>\<open>`${error}`\<close> prints; a \<^verbatim>\<open>close\<close> event resolves it with the exit code and the
  signal, each \<^verbatim>\<open>null\<close> when it does not apply.
\<close>

datatype spawn_result = SpawnError string | Close "int option" "string option"

fun ofNull :: "'a option \<Rightarrow> 'a nullable" where
  "ofNull None = Null"
| "ofNull (Some v) = Value v"

text \<open>
  \<^verbatim>\<open>whichSpawn(programName, args, options, returnExitCodeOrSignal = false)\<close>. The child
  is the parameter \<open>spawn\<close>, called with the resolved path and the arguments. The result
  is the lines written to the error stream (the debug line when \<^verbatim>\<open>DEBUG\<close> is truthy)
  and the rejection or the pair \<^verbatim>\<open>[exitCode, exitSignal]\<close>.
\<close>

definition whichSpawn ::
  "(string \<Rightarrow> js_error + string) \<Rightarrow> (string \<Rightarrow> string list \<Rightarrow> spawn_result) \<Rightarrow> env
     \<Rightarrow> string \<Rightarrow> string list \<Rightarrow> bool option
     \<Rightarrow> string list \<times> (js_error + int nullable \<times> string nullable)" where
  "whichSpawn whichMod spawn e programName args returnExitCodeOrSignal =
     (case which whichMod programName None of
        Inl err \<Rightarrow> ([], Inl err)
      | Inr program \<Rightarrow>
          (let stderr = (if truthyStr (e ''DEBUG'')
                         then [''[debug] ['' @ program @ '', '' @ join '', '' args @ '']'']
                         else []);
               (error, exitCode, exitSignal) =
                 (case spawn program args of
                    SpawnError err \<Rightarrow> (Some err, Undefined, Undefined)
                  | Close code signal \<Rightarrow> (None, ofNull code, ofNull signal))
           in if error \<noteq> None \<or>
                 (\<not> defaultTo False returnExitCodeOrSignal \<and>
                    (truthyCode exitCode \<or> truthySignal exitSignal))
              then
                (stderr,
                 Inl (Error None
                   (join [CHR 0x0A]
                     ([programName @ '' failed with exit code='' @ showNullable showInt exitCode
                         @ '' signal='' @ showNullable id exitSignal @ '':'',
                       ''['' @ program @ '', '' @ join '', '' args @ '']'']
                      @ (case error of Some err \<Rightarrow> [err] | None \<Rightarrow> [])))))
              else (stderr, Inr (exitCode, exitSignal))))"

section \<open>Proxy configuration\<close>

text \<open>
  \<^verbatim>\<open>s.lastIndexOf(c)\<close> for a one-unit string \<open>c\<close>: the index of its last occurrence, or
  \<open>-1\<close>. \<^verbatim>\<open>s.substring(b, e)\<close> clamps both indices to the string and swaps them when
  the first is the larger; \<^verbatim>\<open>s.substring(b)\<close> ends at the end of the string.
\<close>

fun lastIndexOfFrom :: "char \<Rightarrow> nat \<Rightarrow> int \<Rightarrow> string \<Rightarrow> int" where
  "lastIndexOfFrom c k found [] = found"
| "lastIndexOfFrom c k found (x # xs) =
     lastIndexOfFrom c (Suc k) (if x = c then int k else found) xs"

definition lastIndexOf :: "string \<Rightarrow> char \<Rightarrow> int" where
  "lastIndexOf s c = lastIndexOfFrom c 0 (- 1) s"

definition substring :: "string \<Rightarrow> int \<Rightarrow> int \<Rightarrow> string" where
  "substring s b e =
     (let n = int (length s);
          b' = max 0 (min b n);
          e' = max 0 (min e n);
          from = min b' e';
          to = max b' e'
      in take (nat (to - from)) (drop (nat from) s))"

definition substringFrom :: "string \<Rightarrow> int \<Rightarrow> string" where
  "substringFrom s b = substring s b (int (length s))"

text \<open>
  The global \<^verbatim>\<open>PROXY_CONFIG\<close> of global-tunnel-ng (host, port and the optional
  \<^verbatim>\<open>proxyAuth\<close>), the fields of a parsed \<^verbatim>\<open>URL\<close> that are read, and the
  \<^verbatim>\<open>ProxyConfig\<close> returned.
\<close>

record tunnelNgConfig =
  tunnel_host :: string
  tunnel_port :: int
  tunnel_proxyAuth :: "string option"

record url =
  url_hostname :: string
  url_port :: string
  url_username :: string
  url_password :: string

record ProxyConfig =
  host :: string
  port :: string
  username :: "string option"
  password :: "string option"
  proxyAuth :: "string option"

text \<open>
  \<^verbatim>\<open>getProxyConfig()\<close>. It reads the global \<^verbatim>\<open>PROXY_CONFIG\<close> (\<open>None\<close> when it is not
  set) and the environment; the constructor \<^verbatim>\<open>URL\<close> of the runtime is the parameter
  \<open>newURL\<close>, \<open>None\<close> when it throws. The result \<open>None\<close> is \<^verbatim>\<open>undefined\<close>. The local
  variables that share a name with a field of the result carry a prime.
\<close>

definition getProxyConfig ::
  "tunnelNgConfig option \<Rightarrow> env \<Rightarrow> (string \<Rightarrow> url option) \<Rightarrow> ProxyConfig option" where
  "getProxyConfig global_PROXY_CONFIG e newURL =
     (case global_PROXY_CONFIG of
        Some tunnelNgConfig \<Rightarrow>
          (let (username', password') =
                 (case tunnel_proxyAuth tunnelNgConfig of
                    None \<Rightarrow> (None, None)
                  | Some proxyAuth' \<Rightarrow>
                      if proxyAuth' \<noteq> [] then
                        (let i = lastIndexOf proxyAuth' CHR '':''
                         in if i > 0
                            then (Some (substring proxyAuth' 0 i),
                                  Some (substringFrom proxyAuth' (i + 1)))
                            else (None, None))
                      else (None, None))
           in Some \<lparr>host = tunnel_host tunnelNgConfig,
                    port = showInt (tunnel_port tunnelNgConfig),
                    username = username',
                    password = password',
                    proxyAuth = tunnel_proxyAuth tunnelNgConfig\<rparr>)
      | None \<Rightarrow>
          (let proxyUrl = (if truthyStr (e ''HTTPS_PROXY'') then e ''HTTPS_PROXY''
                           else e ''HTTP_PROXY'')
           in case proxyUrl of
                None \<Rightarrow> None
              | Some u \<Rightarrow>
                  if u \<noteq> [] then
                    (case newURL u of
                       None \<Rightarrow> None
                     | Some url \<Rightarrow>
                         Some \<lparr>host = url_hostname url,
                               port = url_port url,
                               username = Some (url_username url),
                               password = Some (url_password url),
                               proxyAuth =
                                 (if url_username url \<noteq> [] \<and> url_password url \<noteq> []
                                  then Some (url_username url @ '':'' @ url_password url)
                                  else None)\<rparr>)
                  else None))"

section \<open>Inputs of the examples\<close>

text \<open>
  The exact-match equivalence \<^verbatim>\<open>(a, x) => a === x\<close> of the comparator's example.
\<close>

definition exactMatch :: "string \<Rightarrow> string \<Rightarrow> nat \<Rightarrow> string list \<Rightarrow> bool" where
  "exactMatch a x index array = (a = x)"




text \<open>
  A stand-in for the POSIX escaper that marks its output, so that the branch taken by
  \<^verbatim>\<open>shellEscape\<close> shows in the result; a lookup that finds every program under
  \<^verbatim>\<open>/usr/bin\<close>; and a \<^verbatim>\<open>URL\<close> constructor that knows two proxy URLs and throws on
  everything else.
\<close>

definition posixMarked :: "string list \<Rightarrow> string" where
  "posixMarked xs = ''posix:'' @ join '' '' xs"

definition exampleWhich :: "string \<Rightarrow> js_error + string" where
  "exampleWhich p = Inr (''/usr/bin/'' @ p)"

definition exampleURL :: "string \<Rightarrow> url option" where
  "exampleURL s =
     (if s = ''http://proxy:8080''
      then Some \<lparr>url_hostname = ''proxy'', url_port = ''8080'',
                 url_username = [], url_password = []\<rparr>
      else if s = ''https://user:pw@secure:3128''
      then Some \<lparr>url_hostname = ''secure'', url_port = ''3128'',
                 url_username = ''user'', url_password = ''pw''\<rparr>
      else None)"

section \<open>The cmd.exe escaper: its steps and the round trip\<close>

lemma startsWith_single: "startsWith s [c] = (s \<noteq> [] \<and> hd s = c)"
  by (cases s) (simp_all add: startsWith_def)

lemma endsWith_single: "endsWith s [c] = (s \<noteq> [] \<and> last s = c)"
proof (cases s rule: rev_cases)
  case Nil
  then show ?thesis by (simp add: endsWith_def)
next
  case (snoc ys y)
  then show ?thesis by (simp add: endsWith_def)
qed

lemma slice_1_m1: "length s > 1 \<Longrightarrow> slice s 1 (- 1) = butlast (tl s)"
proof -
  assume len: "length s > 1"
  have "take (length s - 2) (drop 1 s) = butlast (tl s)"
    by (simp add: butlast_conv_take drop_Suc numeral_2_eq_2)
  moreover have "nat (int (length s) - 1 - 1) = length s - 2"
    by simp
  ultimately show ?thesis
    using len by (simp add: slice_def Let_def)
qed

lemma is_meta_set: "(c \<in> set cmdMetaChars) = spec_is_meta c"
  by (auto simp: cmdMetaChars_def spec_is_meta_def caret_def)

lemma replaceClass_meta: "replaceClass cmdMetaChars (\<lambda>c. [caret, c]) s = spec_caret_escape s"
  by (induction s) (simp_all add: replaceClass_def is_meta_set)

lemma replaceClass_dquote:
  "replaceClass [dquote] (\<lambda>c. [dquote, dquote]) s = spec_double_quotes s"
  by (induction s) (simp_all add: replaceClass_def)

lemma strip_outer_eq:
  "(if length arg > 1 \<and> startsWith arg [dquote] \<and> endsWith arg [dquote]
    then slice arg 1 (- 1) else arg) = spec_strip_outer arg"
  by (auto simp: spec_strip_outer_def spec_fully_quoted_def startsWith_single
      endsWith_single slice_1_m1)

text \<open>
  C1. For every input string the escaper's output is obtained by the four steps in
  order: strip the outer pair of double quotes when the input is longer than one code
  unit and both starts and ends with a double quote; prefix each of
  \<^verbatim>\<open>( ) % ! ^ < > & |\<close> with a caret; duplicate every remaining double quote; wrap
  the result in one new pair of double quotes.
\<close>

theorem C1_escape_is_four_steps:
  "windowsCmdExeEscapeArg arg =
     spec_wrap (spec_double_quotes (spec_caret_escape (spec_strip_outer arg)))"
proof -
  let ?stripped = "if length arg > 1 \<and> startsWith arg [dquote] \<and> endsWith arg [dquote]
                   then slice arg 1 (- 1) else arg"
  have step1: "?stripped = spec_strip_outer arg"
    by (rule strip_outer_eq)
  have step2: "replaceClass cmdMetaChars (\<lambda>c. [caret, c]) (spec_strip_outer arg)
                 = spec_caret_escape (spec_strip_outer arg)"
    by (rule replaceClass_meta)
  have step3: "replaceClass [dquote] (\<lambda>c. [dquote, dquote])
                 (spec_caret_escape (spec_strip_outer arg))
                 = spec_double_quotes (spec_caret_escape (spec_strip_outer arg))"
    by (rule replaceClass_dquote)
  have "windowsCmdExeEscapeArg arg =
          [dquote] @ replaceClass [dquote] (\<lambda>c. [dquote, dquote])
                       (replaceClass cmdMetaChars (\<lambda>c. [caret, c]) ?stripped) @ [dquote]"
    by (simp add: windowsCmdExeEscapeArg_def Let_def)
  also have "\<dots> = [dquote] @ spec_double_quotes (spec_caret_escape (spec_strip_outer arg))
                      @ [dquote]"
    by (simp only: step1 step2 step3)
  finally show ?thesis
    by (simp add: spec_wrap_def)
qed

lemma caret_not_dquote: "caret \<noteq> dquote"
  by (simp add: caret_def dquote_def)

lemma meta_caret: "spec_is_meta caret"
  by (simp add: spec_is_meta_def)

lemma dquote_not_meta: "\<not> spec_is_meta dquote"
  by (simp add: spec_is_meta_def dquote_def caret_def)

lemma unquote_plain:
  "c \<noteq> caret \<Longrightarrow> c \<noteq> dquote \<Longrightarrow>
     spec_cmd_unquote (c # r) = map_option ((#) c) (spec_cmd_unquote r)"
  by (cases r) simp_all

lemma unquote_escaped:
  "spec_cmd_unquote (spec_double_quotes (spec_caret_escape s)) = Some s"
proof (induction s)
  case Nil
  show ?case by simp
next
  case (Cons c s)
  show ?case
  proof (cases "spec_is_meta c")
    case True
    then have "c \<noteq> dquote" using dquote_not_meta by auto
    with True Cons show ?thesis
      by (simp add: caret_not_dquote)
  next
    case False
    then have nc: "c \<noteq> caret" using meta_caret by auto
    show ?thesis
    proof (cases "c = dquote")
      case True
      with False Cons show ?thesis
        using caret_not_dquote by simp
    next
      case nq: False
      with False nc Cons show ?thesis
        by (simp add: unquote_plain)
    qed
  qed
qed

lemma parse_wrap: "spec_cmd_parse (spec_wrap x) = spec_cmd_unquote x"
  by (simp add: spec_cmd_parse_def spec_wrap_def spec_fully_quoted_def butlast_append)

lemma escape_as_wrap:
  "windowsCmdExeEscapeArg arg =
     spec_wrap (spec_double_quotes (spec_caret_escape
       (if spec_fully_quoted arg then butlast (tl arg) else arg)))"
  unfolding windowsCmdExeEscapeArg_def Let_def strip_outer_eq replaceClass_meta
    replaceClass_dquote spec_wrap_def spec_strip_outer_def
  by simp

text \<open>
  C2, as amended. Reading the escaper's output under the quoting rules (caret escape,
  doubled quote) gives back the original argument for every argument that is not
  itself wrapped in a pair of double quotes, whatever metacharacters and embedded
  double quotes it contains; for an argument that is longer than one code unit and
  both starts and ends with a double quote, it gives back the argument without that
  outer pair.
\<close>

theorem C2_roundtrip_up_to_outer_quotes:
  "spec_cmd_parse (windowsCmdExeEscapeArg arg) =
     Some (if spec_fully_quoted arg then butlast (tl arg) else arg)"
  by (simp only: escape_as_wrap parse_wrap unquote_escaped)

text \<open>
  The round trip does not hold for every argument, as it fails on a wrapped one:
  \<^verbatim>\<open>"a"\<close> and \<^verbatim>\<open>a\<close> have the same escaped form, so no reader of the output can give
  back both; the quoting rules give back \<^verbatim>\<open>a\<close>.
\<close>

theorem C2_roundtrip_counterexample:
  "windowsCmdExeEscapeArg [dquote, CHR ''a'', dquote] = windowsCmdExeEscapeArg ''a''
   \<and> [dquote, CHR ''a'', dquote] \<noteq> ''a''
   \<and> spec_cmd_parse (windowsCmdExeEscapeArg [dquote, CHR ''a'', dquote]) = Some ''a''
   \<and> spec_cmd_parse (windowsCmdExeEscapeArg [dquote, CHR ''a'', dquote])
       \<noteq> Some [dquote, CHR ''a'', dquote]"
  by (simp add: windowsCmdExeEscapeArg_def startsWith_def endsWith_def slice_def
      replaceClass_def cmdMetaChars_def dquote_def caret_def spec_cmd_parse_def
      spec_fully_quoted_def spec_is_meta_def)

section \<open>Dialect selection\<close>

text \<open>
  C4, as amended. With \<^verbatim>\<open>detectShell = true\<close>: when \<^verbatim>\<open>SHELL\<close> is set, POSIX escaping
  is used on every host, Windows included; when \<^verbatim>\<open>SHELL\<close> is not set, cmd.exe escaping
  is used exactly when \<^verbatim>\<open>ComSpec\<close> is set and ends with \<^verbatim>\<open>cmd.exe\<close>, and POSIX escaping
  otherwise, whatever the host platform is.
\<close>

theorem C4_detected_dialect:
  "(e ''SHELL'' \<noteq> None \<longrightarrow>
      shellEscape shellEscapeFunc e platform args (Some True)
        = map (\<lambda>v. shellEscapeFunc [v]) args)
   \<and> (e ''SHELL'' = None \<and> e ''ComSpec'' = Some c \<and> endsWith c ''cmd.exe'' \<longrightarrow>
      shellEscape shellEscapeFunc e platform args (Some True)
        = map windowsCmdExeEscapeArg args)
   \<and> (e ''SHELL'' = None
        \<and> (e ''ComSpec'' = None \<or> e ''ComSpec'' = Some c \<and> \<not> endsWith c ''cmd.exe'') \<longrightarrow>
      shellEscape shellEscapeFunc e platform args (Some True)
        = map (\<lambda>v. shellEscapeFunc [v]) args)"
  by (auto simp: shellEscape_def isCmdExe_def isWindowsComExeShell_def defaultTo_def)

text \<open>
  On a Windows host: a POSIX layer (\<^verbatim>\<open>SHELL\<close> set), a cmd.exe session, and a session
  whose \<^verbatim>\<open>ComSpec\<close> is another shell.
\<close>

theorem C4_detected_dialect_witness:
  "shellEscape posixMarked
      [''SHELL'' \<mapsto> ''/usr/bin/bash'', ''ComSpec'' \<mapsto> ''C:/WINDOWS/system32/cmd.exe'']
      ''win32'' [''a&b''] (Some True) = [''posix:a&b'']
   \<and> shellEscape posixMarked [''ComSpec'' \<mapsto> ''C:/WINDOWS/system32/cmd.exe'']
      ''win32'' [''a&b''] (Some True) = [dquote # ''a^&b'' @ [dquote]]
   \<and> shellEscape posixMarked [''ComSpec'' \<mapsto> ''C:/Program Files/PowerShell/pwsh.exe'']
      ''win32'' [''a&b''] (Some True) = [''posix:a&b'']"
  using C4_detected_dialect
      [where e = "[''SHELL'' \<mapsto> ''/usr/bin/bash'',
                   ''ComSpec'' \<mapsto> ''C:/WINDOWS/system32/cmd.exe'']"
         and shellEscapeFunc = posixMarked and platform = "''win32''" and args = "[''a&b'']"]
    C4_detected_dialect
      [where e = "[''ComSpec'' \<mapsto> ''C:/WINDOWS/system32/cmd.exe'']"
         and shellEscapeFunc = posixMarked and platform = "''win32''" and args = "[''a&b'']"
         and c = "''C:/WINDOWS/system32/cmd.exe''"]
    C4_detected_dialect
      [where e = "[''ComSpec'' \<mapsto> ''C:/Program Files/PowerShell/pwsh.exe'']"
         and shellEscapeFunc = posixMarked and platform = "''win32''" and args = "[''a&b'']"
         and c = "''C:/Program Files/PowerShell/pwsh.exe''"]
  by (simp add: endsWith_def posixMarked_def windowsCmdExeEscapeArg_def startsWith_def
      replaceClass_def cmdMetaChars_def dquote_def caret_def)

text \<open>
  The fall back is not to the dialect of the host: with \<^verbatim>\<open>SHELL\<close> not set the host
  platform is not looked at. On a Windows host with \<^verbatim>\<open>ComSpec\<close> not set the escaping
  is POSIX, and on a Linux host with \<^verbatim>\<open>ComSpec\<close> ending in \<^verbatim>\<open>cmd.exe\<close> it is that of
  cmd.exe.
\<close>

theorem C4_native_dialect_counterexample:
  "shellEscape posixMarked Map.empty ''win32'' [''a&b''] (Some True) = [''posix:a&b'']
   \<and> shellEscape posixMarked Map.empty ''win32'' [''a&b''] (Some True)
       \<noteq> map windowsCmdExeEscapeArg [''a&b'']
   \<and> shellEscape posixMarked [''ComSpec'' \<mapsto> ''cmd.exe''] ''linux'' [''a&b''] (Some True)
       = [dquote # ''a^&b'' @ [dquote]]
   \<and> shellEscape posixMarked [''ComSpec'' \<mapsto> ''cmd.exe''] ''linux'' [''a&b''] (Some True)
       \<noteq> [posixMarked [''a&b'']]"
  by (simp add: shellEscape_def isCmdExe_def isWindowsComExeShell_def defaultTo_def
      endsWith_def posixMarked_def windowsCmdExeEscapeArg_def startsWith_def
      replaceClass_def cmdMetaChars_def dquote_def caret_def)

section \<open>Arithmetic of Numbers\<close>

lemma bitLength_bounds: "0 < n \<Longrightarrow> 2 ^ (bitLength n - 1) \<le> n \<and> n < 2 ^ bitLength n"
proof (induction n rule: bitLength.induct)
  case (1 n)
  show ?case
  proof (cases "n div 2 = 0")
    case True
    with 1 have "n = 1" by (auto simp: div_eq_0_iff)
    then show ?thesis by (simp add: bitLength.simps)
  next
    case False
    then have pos: "0 < n div 2" by simp
    from 1 have ne: "n \<noteq> 0" by simp
    from "1.IH" [OF ne pos] have lo: "2 ^ (bitLength (n div 2) - 1) \<le> n div 2"
      and hi: "n div 2 < 2 ^ bitLength (n div 2)" by simp_all
    have bl: "bitLength n = Suc (bitLength (n div 2))"
      using ne by (subst bitLength.simps) simp
    have bpos: "0 < bitLength (n div 2)"
      using pos by (subst bitLength.simps) simp
    then obtain m where m: "bitLength (n div 2) = Suc m" by (cases "bitLength (n div 2)") auto
    have "2 * 2 ^ m \<le> 2 * (n div 2)" using lo m by simp
    also have "\<dots> \<le> n" by simp
    finally have a: "2 ^ (bitLength n - 1) \<le> n" by (simp add: bl m)
    have "n < 2 * (n div 2) + 2" by arith
    also have "\<dots> \<le> 2 * 2 ^ bitLength (n div 2)" using hi by simp
    finally have b: "n < 2 ^ bitLength n" by (simp add: bl)
    from a b show ?thesis by simp
  qed
qed

lemma bitLength_pos: "0 < n \<Longrightarrow> 0 < bitLength n"
  by (subst bitLength.simps) simp

lemma pow2_nat: "pow2 (int k) = 2 ^ k"
  by (simp add: pow2_def)

lemma pow2_neg: "pow2 (- int k) = 1 / 2 ^ k"
  by (cases k) (simp_all add: pow2_def nat_add_distrib)

lemma binaryExponent_bounds:
  assumes "0 < q"
  shows "pow2 (binaryExponent q) \<le> q \<and> q < pow2 (binaryExponent q + 1)"
proof (cases "1 \<le> q")
  case True
  let ?n = "nat \<lfloor>q\<rfloor>"
  have fl: "1 \<le> \<lfloor>q\<rfloor>" using True by (simp add: le_floor_iff)
  then have npos: "0 < ?n" by simp
  have e: "binaryExponent q = int (bitLength ?n - 1)"
    using True bitLength_pos [OF npos] by (simp add: binaryExponent_def)
  have e1: "binaryExponent q + 1 = int (bitLength ?n)"
    using e bitLength_pos [OF npos] by simp
  have lo: "2 ^ (bitLength ?n - 1) \<le> ?n"
    by (rule conjunct1 [OF bitLength_bounds [OF npos]])
  have hi: "Suc ?n \<le> 2 ^ bitLength ?n"
    by (rule Suc_leI [OF conjunct2 [OF bitLength_bounds [OF npos]]])
  have nq: "(of_nat ?n :: rat) \<le> q" using fl by simp
  have "pow2 (binaryExponent q) = 2 ^ (bitLength ?n - 1)"
    by (simp only: e pow2_nat)
  also have "\<dots> = of_nat (2 ^ (bitLength ?n - 1))" by simp
  also have "\<dots> \<le> of_nat ?n"
    using lo by (simp only: of_nat_le_iff)
  also have "\<dots> \<le> q" by (rule nq)
  finally have a: "pow2 (binaryExponent q) \<le> q" .
  have "q < of_int \<lfloor>q\<rfloor> + 1" by linarith
  also have "\<dots> = of_nat (Suc ?n)" using fl by simp
  also have "(of_nat (Suc ?n) :: rat) \<le> of_nat (2 ^ bitLength ?n)"
    using hi by (simp only: of_nat_le_iff)
  also have "\<dots> = 2 ^ bitLength ?n" by simp
  also have "\<dots> = pow2 (binaryExponent q + 1)"
    by (simp only: e1 pow2_nat)
  finally have b: "q < pow2 (binaryExponent q + 1)" .
  from a b show ?thesis ..
next
  case False
  then have q1: "q < 1" by simp
  define t where "t = 1 / q"
  define c where "c = \<lceil>t\<rceil>"
  define n where "n = nat (c - 1)"
  define m where "m = bitLength n"
  have t1: "1 < t" using assms q1 by (simp add: t_def)
  have cu: "t \<le> of_int c" and cl: "of_int c - 1 < t"
    using ceiling_correct [of t] by (simp_all add: c_def)
  from t1 cu have "(1::rat) < of_int c" by (rule less_le_trans)
  then have c2: "2 \<le> c" by simp
  then have npos: "0 < n" and nc: "int n = c - 1" by (simp_all add: n_def)
  have mpos: "0 < m" unfolding m_def by (rule bitLength_pos [OF npos])
  have e: "binaryExponent q = - int m"
    using False by (simp add: binaryExponent_def m_def n_def c_def t_def)
  have e1: "binaryExponent q + 1 = - int (m - 1)"
    using e mpos by simp
  have lo: "2 ^ (m - 1) \<le> n"
    unfolding m_def by (rule conjunct1 [OF bitLength_bounds [OF npos]])
  have hi: "Suc n \<le> 2 ^ m"
    unfolding m_def by (rule Suc_leI [OF conjunct2 [OF bitLength_bounds [OF npos]]])
  have rn: "(of_nat n :: rat) = of_int c - 1"
  proof -
    have "(of_nat n :: rat) = of_int (int n)" by simp
    also have "\<dots> = of_int (c - 1)" by (simp only: nc)
    finally show ?thesis by simp
  qed
  have "t \<le> of_int c" by (rule cu)
  also have "\<dots> = of_nat (Suc n)" using rn by simp
  also have "(of_nat (Suc n) :: rat) \<le> of_nat (2 ^ m)"
    using hi by (simp only: of_nat_le_iff)
  also have "\<dots> = 2 ^ m" by simp
  finally have tle: "1 / q \<le> 2 ^ m" by (simp only: t_def)
  have a: "pow2 (binaryExponent q) \<le> q"
  proof -
    have "1 \<le> q * 2 ^ m" using tle assms by (simp add: field_simps)
    then show ?thesis unfolding e pow2_neg using assms by (simp add: field_simps)
  qed
  have "(2::rat) ^ (m - 1) = of_nat (2 ^ (m - 1))" by simp
  also have "\<dots> \<le> of_nat n"
    using lo by (simp only: of_nat_le_iff)
  also have "\<dots> = of_int c - 1" by (rule rn)
  also have "\<dots> < t" by (rule cl)
  finally have tgt: "2 ^ (m - 1) < 1 / q" by (simp only: t_def)
  have b: "q < pow2 (binaryExponent q + 1)"
  proof -
    have "q * 2 ^ (m - 1) < 1" using tgt assms by (simp add: field_simps)
    then show ?thesis unfolding e1 pow2_neg using assms by (simp add: field_simps)
  qed
  from a b show ?thesis ..
qed













section \<open>The retry loop\<close>

























section \<open>The manual-order comparator\<close>

lemma findIndexFrom_found:
  "i < length xs \<Longrightarrow> pred (xs ! i) (k + i) array \<Longrightarrow>
   \<forall>m<i. \<not> pred (xs ! m) (k + m) array \<Longrightarrow>
   findIndexFrom pred array k xs = int (k + i)"
proof (induction xs arbitrary: i k)
  case Nil
  then show ?case by simp
next
  case (Cons x xs)
  show ?case
  proof (cases i)
    case 0
    with Cons.prems show ?thesis by simp
  next
    case (Suc i')
    have "\<not> pred x k array" using Cons.prems(3) Suc by force
    moreover have "findIndexFrom pred array (Suc k) xs = int (Suc k + i')"
    proof (rule Cons.IH)
      show "i' < length xs" using Cons.prems(1) Suc by simp
      show "pred (xs ! i') (Suc k + i') array" using Cons.prems(2) Suc by simp
      show "\<forall>m<i'. \<not> pred (xs ! m) (Suc k + m) array"
      proof (intro allI impI)
        fix m assume "m < i'"
        then have "Suc m < i" using Suc by simp
        with Cons.prems(3) have "\<not> pred ((x # xs) ! Suc m) (k + Suc m) array" by blast
        then show "\<not> pred (xs ! m) (Suc k + m) array" by simp
      qed
    qed
    ultimately show ?thesis using Suc by simp
  qed
qed

lemma findIndexFrom_none:
  "\<forall>m<length xs. \<not> pred (xs ! m) (k + m) array \<Longrightarrow> findIndexFrom pred array k xs = - 1"
proof (induction xs arbitrary: k)
  case Nil
  then show ?case by simp
next
  case (Cons x xs)
  have "\<not> pred x k array" using Cons.prems by force
  moreover have "findIndexFrom pred array (Suc k) xs = - 1"
  proof (rule Cons.IH, intro allI impI)
    fix m assume "m < length xs"
    then have "\<not> pred ((x # xs) ! Suc m) (k + Suc m) array" using Cons.prems by force
    then show "\<not> pred (xs ! m) (Suc k + m) array" by simp
  qed
  ultimately show ?case by simp
qed

lemma findIndex_first_match:
  "first_match_at ref eq a i \<Longrightarrow>
     findIndex ref (\<lambda>x index array. eq a x index array) = int i"
  unfolding first_match_at_def findIndex_def
  using findIndexFrom_found [of i ref "\<lambda>x index array. eq a x index array" 0 ref]
  by simp

lemma findIndex_not_found:
  "not_found ref eq a \<Longrightarrow> findIndex ref (\<lambda>x index array. eq a x index array) = - 1"
  unfolding not_found_def findIndex_def
  using findIndexFrom_none [of ref "\<lambda>x index array. eq a x index array" 0 ref]
  by simp

text \<open>
  C8. The comparator orders two candidates that are both found in the reference list
  by the indices of their first matches, the lower first; compares two candidates that
  are both not found with \<^verbatim>\<open><\<close> and \<^verbatim>\<open>>\<close>; and puts a found candidate before one
  that is not found, whatever their values. With the reference list
  \<^verbatim>\<open>["b", "a"]\<close> and exact match, sorting \<^verbatim>\<open>["a", "b", "c"]\<close> gives
  \<^verbatim>\<open>["b", "a", "c"]\<close>.
\<close>

theorem C8_manual_sort_comparator:
  "(first_match_at ref eq a i \<and> first_match_at ref eq b j \<longrightarrow>
      getManualSortCompareFunction ref eq a b = int i - int j \<and>
      (getManualSortCompareFunction ref eq a b < 0) = (i < j))
   \<and> (not_found ref eq a \<and> not_found ref eq b \<longrightarrow>
      getManualSortCompareFunction ref eq a b = (if a < b then - 1 else if a > b then 1 else 0))
   \<and> (first_match_at ref eq a i \<and> not_found ref eq b \<longrightarrow>
      getManualSortCompareFunction ref eq a b = - 1 \<and>
      getManualSortCompareFunction ref eq b a = 1)
   \<and> sortBy (getManualSortCompareFunction [''b'', ''a''] exactMatch) [''a'', ''b'', ''c'']
        = [''b'', ''a'', ''c'']"
proof (intro conjI impI)
  assume h: "first_match_at ref eq a i \<and> first_match_at ref eq b j"
  then have "findIndex ref (eq a) = int i" and "findIndex ref (eq b) = int j"
    using findIndex_first_match [of ref eq] by auto
  then show ij: "getManualSortCompareFunction ref eq a b = int i - int j"
    by (simp add: getManualSortCompareFunction_def Let_def)
  show "(getManualSortCompareFunction ref eq a b < 0) = (i < j)"
    unfolding ij by auto
next
  assume "not_found ref eq a \<and> not_found ref eq b"
  then have "findIndex ref (eq a) = - 1" and "findIndex ref (eq b) = - 1"
    using findIndex_not_found [of ref eq] by auto
  then show "getManualSortCompareFunction ref eq a b = (if a < b then - 1 else if a > b then 1 else 0)"
    by (simp add: getManualSortCompareFunction_def Let_def)
next
  assume h: "first_match_at ref eq a i \<and> not_found ref eq b"
  then have ix: "findIndex ref (eq a) = int i" "findIndex ref (eq b) = - 1"
    using findIndex_first_match [of ref eq] findIndex_not_found [of ref eq] by auto
  then show "getManualSortCompareFunction ref eq a b = - 1"
    by (simp add: getManualSortCompareFunction_def Let_def)
  from ix show "getManualSortCompareFunction ref eq b a = 1"
    by (simp add: getManualSortCompareFunction_def Let_def)
next
  show "sortBy (getManualSortCompareFunction [''b'', ''a''] exactMatch) [''a'', ''b'', ''c'']
        = [''b'', ''a'', ''c'']"
    by (simp add: getManualSortCompareFunction_def Let_def findIndex_def exactMatch_def)
qed

text \<open>
  Both found (\<^verbatim>\<open>a\<close> at 1, \<^verbatim>\<open>b\<close> at 0), neither found (\<^verbatim>\<open>d\<close> and \<^verbatim>\<open>c\<close>), and a
  found \<^verbatim>\<open>a\<close> against \<^verbatim>\<open>Z\<close>, which is smaller by \<^verbatim>\<open><\<close> and still sorts after it.
\<close>

theorem C8_manual_sort_comparator_witness:
  "getManualSortCompareFunction [''b'', ''a''] exactMatch ''a'' ''b'' = 1
   \<and> getManualSortCompareFunction [''b'', ''a''] exactMatch ''d'' ''c'' = 1
   \<and> getManualSortCompareFunction [''b'', ''a''] exactMatch ''a'' ''Z'' = - 1
   \<and> getManualSortCompareFunction [''b'', ''a''] exactMatch ''Z'' ''a'' = 1"
  using C8_manual_sort_comparator [of "[''b'', ''a'']" exactMatch "''a''" 1 "''b''" 0]
    C8_manual_sort_comparator [of "[''b'', ''a'']" exactMatch "''d''" 0 "''c''" 0]
    C8_manual_sort_comparator [of "[''b'', ''a'']" exactMatch "''a''" 1 "''Z''" 0]
  by (simp add: first_match_at_def not_found_def exactMatch_def less_Suc_eq numeral_2_eq_2)

section \<open>Locating and running a program\<close>

text \<open>
  C6. When the lookup fails with the code \<^verbatim>\<open>ENOENT\<close>: with \<^verbatim>\<open>rejectOnMissing\<close> true,
  which it is when omitted, \<^verbatim>\<open>which\<close> rejects with the \<^verbatim>\<open>ExpectedError\<close> saying that
  the program was not found; with \<^verbatim>\<open>rejectOnMissing\<close> false it resolves to the empty
  string. A lookup failure with any other code, or none, is thrown again unchanged in
  both modes.
\<close>

theorem C6_which_not_found:
  "(whichMod program = Inl err \<and> error_code err = Some ''ENOENT'' \<longrightarrow>
      which whichMod program (Some True)
        = Inl (ExpectedError (squote # program @ squote # '' program not found. Is it installed?''))
      \<and> which whichMod program None = which whichMod program (Some True)
      \<and> which whichMod program (Some False) = Inr [])
   \<and> (whichMod program = Inl err \<and> error_code err \<noteq> Some ''ENOENT'' \<longrightarrow>
      which whichMod program rejectOnMissing = Inl err)"
  by (simp add: which_def defaultTo_def)

text \<open>A program that is not on the path, and a lookup that fails with \<^verbatim>\<open>EACCES\<close>.\<close>

theorem C6_which_not_found_witness:
  "which (\<lambda>p. Inl (Error (Some ''ENOENT'') (''not found: '' @ p))) ''no-such-program'' None
     = Inl (ExpectedError (squote # ''no-such-program'' @ squote # '' program not found. Is it installed?''))
   \<and> which (\<lambda>p. Inl (Error (Some ''ENOENT'') (''not found: '' @ p))) ''no-such-program'' (Some False)
     = Inr []
   \<and> which (\<lambda>p. Inl (Error (Some ''EACCES'') ''permission denied'')) ''ssh'' (Some False)
     = Inl (Error (Some ''EACCES'') ''permission denied'')
   \<and> which (\<lambda>p. Inl (Error (Some ''EACCES'') ''permission denied'')) ''ssh'' (Some True)
     = Inl (Error (Some ''EACCES'') ''permission denied'')"
  using C6_which_not_found [of "\<lambda>p. Inl (Error (Some ''ENOENT'') (''not found: '' @ p))" "''no-such-program''"
             "Error (Some ''ENOENT'') ''not found: no-such-program''"]
    C6_which_not_found [of "\<lambda>p. Inl (Error (Some ''EACCES'') ''permission denied'')" "''ssh''"
             "Error (Some ''EACCES'') ''permission denied''" "Some False"]
    C6_which_not_found [of "\<lambda>p. Inl (Error (Some ''EACCES'') ''permission denied'')" "''ssh''"
             "Error (Some ''EACCES'') ''permission denied''" "Some True"]
  by simp

text \<open>
  C5. For a program that was found and spawned: a close with exit code 0 and no signal
  resolves to the pair of 0 and no signal under either policy; a close by a signal has
  no exit code and, when exit code and signal are returned
  (\<^verbatim>\<open>returnExitCodeOrSignal = true\<close>), resolves to the pair of no exit code and the
  signal's name; under the default policy (\<^verbatim>\<open>returnExitCodeOrSignal\<close> false or omitted)
  a close with an exit code other than 0 or with a signal that is not empty rejects
  with an error whose message has the program name, the exit code and the signal, then
  the resolved path and all the arguments; and an error event of the spawn rejects
  under every policy, the message ending with the text of that error.
\<close>

theorem C5_whichSpawn_exit_status:
  assumes "whichMod programName = Inr program"
  shows
   "(spawn program args = Close (Some 0) None \<longrightarrow>
       snd (whichSpawn whichMod spawn e programName args returnExitCodeOrSignal)
         = Inr (Value 0, Null))
    \<and> (spawn program args = Close None (Some sig) \<longrightarrow>
       snd (whichSpawn whichMod spawn e programName args (Some True)) = Inr (Null, Value sig))
    \<and> (spawn program args = Close code signal
         \<and> ((\<exists>c. code = Some c \<and> c \<noteq> 0) \<or> (\<exists>g. signal = Some g \<and> g \<noteq> []))
         \<and> (returnExitCodeOrSignal = None \<or> returnExitCodeOrSignal = Some False) \<longrightarrow>
       snd (whichSpawn whichMod spawn e programName args returnExitCodeOrSignal)
         = Inl (Error None
             (programName @ '' failed with exit code=''
                @ (case code of None \<Rightarrow> ''null'' | Some c \<Rightarrow> showInt c)
                @ '' signal='' @ (case signal of None \<Rightarrow> ''null'' | Some g \<Rightarrow> g) @ '':''
                @ [CHR 0x0A] @ ''['' @ program @ '', '' @ join '', '' args @ '']'')))
    \<and> (spawn program args = SpawnError err \<longrightarrow>
       snd (whichSpawn whichMod spawn e programName args returnExitCodeOrSignal)
         = Inl (Error None
             (programName @ '' failed with exit code=undefined signal=undefined:''
                @ [CHR 0x0A] @ ''['' @ program @ '', '' @ join '', '' args @ '']''
                @ [CHR 0x0A] @ err)))"
proof -
  have w: "which whichMod programName None = Inr program"
    using assms by (simp add: which_def)
  show ?thesis
  proof (intro conjI impI)
    assume "spawn program args = Close (Some 0) None"
    then show "snd (whichSpawn whichMod spawn e programName args returnExitCodeOrSignal)
         = Inr (Value 0, Null)"
      by (simp add: whichSpawn_def w Let_def)
  next
    assume "spawn program args = Close None (Some sig)"
    then show "snd (whichSpawn whichMod spawn e programName args (Some True)) = Inr (Null, Value sig)"
      by (simp add: whichSpawn_def w Let_def defaultTo_def)
  next
    assume h: "spawn program args = Close code signal
         \<and> ((\<exists>c. code = Some c \<and> c \<noteq> 0) \<or> (\<exists>g. signal = Some g \<and> g \<noteq> []))
         \<and> (returnExitCodeOrSignal = None \<or> returnExitCodeOrSignal = Some False)"
    then have pol: "\<not> defaultTo False returnExitCodeOrSignal"
      by (auto simp: defaultTo_def)
    from h have bad: "truthyCode (ofNull code) \<or> truthySignal (ofNull signal)"
      by auto
    have shc: "showNullable showInt (ofNull code) = (case code of None \<Rightarrow> ''null'' | Some c \<Rightarrow> showInt c)"
      by (cases code) simp_all
    have shs: "showNullable id (ofNull signal) = (case signal of None \<Rightarrow> ''null'' | Some g \<Rightarrow> g)"
      by (cases signal) simp_all
    from h have sp: "spawn program args = Close code signal" by simp
    show "snd (whichSpawn whichMod spawn e programName args returnExitCodeOrSignal)
         = Inl (Error None
             (programName @ '' failed with exit code=''
                @ (case code of None \<Rightarrow> ''null'' | Some c \<Rightarrow> showInt c)
                @ '' signal='' @ (case signal of None \<Rightarrow> ''null'' | Some g \<Rightarrow> g) @ '':''
                @ [CHR 0x0A] @ ''['' @ program @ '', '' @ join '', '' args @ '']''))"
      using pol bad by (simp add: whichSpawn_def w sp Let_def shc shs)
  next
    assume "spawn program args = SpawnError err"
    then show "snd (whichSpawn whichMod spawn e programName args returnExitCodeOrSignal)
         = Inl (Error None
             (programName @ '' failed with exit code=undefined signal=undefined:''
                @ [CHR 0x0A] @ ''['' @ program @ '', '' @ join '', '' args @ '']''
                @ [CHR 0x0A] @ err))"
      by (simp add: whichSpawn_def w Let_def)
  qed
qed

text \<open>
  \<^verbatim>\<open>ssh -p 22\<close> resolved to \<^verbatim>\<open>/usr/bin/ssh\<close>: exit code 0; killed by \<^verbatim>\<open>SIGTERM\<close>
  under both policies; exit code 255; and a spawn that emits an error.
\<close>

theorem C5_whichSpawn_exit_status_witness:
  "snd (whichSpawn exampleWhich (\<lambda>p a. Close (Some 0) None) Map.empty ''ssh'' [''-p'', ''22''] None)
      = Inr (Value 0, Null)
   \<and> snd (whichSpawn exampleWhich (\<lambda>p a. Close None (Some ''SIGTERM'')) Map.empty ''ssh'' [''-p'', ''22''] (Some True))
      = Inr (Null, Value ''SIGTERM'')
   \<and> snd (whichSpawn exampleWhich (\<lambda>p a. Close None (Some ''SIGTERM'')) Map.empty ''ssh'' [''-p'', ''22''] None)
      = Inl (Error None (''ssh failed with exit code=null signal=SIGTERM:'' @ [CHR 0x0A]
              @ ''[/usr/bin/ssh, -p, 22]''))
   \<and> snd (whichSpawn exampleWhich (\<lambda>p a. Close (Some 255) None) Map.empty ''ssh'' [''-p'', ''22''] None)
      = Inl (Error None (''ssh failed with exit code=255 signal=null:'' @ [CHR 0x0A]
              @ ''[/usr/bin/ssh, -p, 22]''))
   \<and> snd (whichSpawn exampleWhich (\<lambda>p a. SpawnError ''Error: spawn EACCES'') Map.empty ''ssh'' [''-p'', ''22''] (Some True))
      = Inl (Error None (''ssh failed with exit code=undefined signal=undefined:'' @ [CHR 0x0A]
              @ ''[/usr/bin/ssh, -p, 22]'' @ [CHR 0x0A] @ ''Error: spawn EACCES''))"
proof -
  have w: "exampleWhich ''ssh'' = Inr ''/usr/bin/ssh''"
    by (simp add: exampleWhich_def)
  show ?thesis
    using C5_whichSpawn_exit_status [where whichMod = exampleWhich and programName = "''ssh''"
               and program = "''/usr/bin/ssh''" and spawn = "\<lambda>p a. Close (Some 0) None"
               and args = "[''-p'', ''22'']" and e = Map.empty
               and returnExitCodeOrSignal = None, OF w]
      C5_whichSpawn_exit_status [where whichMod = exampleWhich and programName = "''ssh''"
               and program = "''/usr/bin/ssh''"
               and spawn = "\<lambda>p a. Close None (Some ''SIGTERM'')"
               and args = "[''-p'', ''22'']" and e = Map.empty
               and returnExitCodeOrSignal = None and sig = "''SIGTERM''"
               and code = None and signal = "Some ''SIGTERM''", OF w]
      C5_whichSpawn_exit_status [where whichMod = exampleWhich and programName = "''ssh''"
               and program = "''/usr/bin/ssh''" and spawn = "\<lambda>p a. Close (Some 255) None"
               and args = "[''-p'', ''22'']" and e = Map.empty
               and returnExitCodeOrSignal = None and code = "Some 255" and signal = None, OF w]
      C5_whichSpawn_exit_status [where whichMod = exampleWhich and programName = "''ssh''"
               and program = "''/usr/bin/ssh''"
               and spawn = "\<lambda>p a. SpawnError ''Error: spawn EACCES''"
               and args = "[''-p'', ''22'']" and e = Map.empty
               and returnExitCodeOrSignal = "Some True"
               and err = "''Error: spawn EACCES''", OF w]
    by (simp add: showInt_def showNat.simps digitChar_def)
qed

section \<open>Proxy configuration\<close>

lemma lastIndexOfFrom_absent: "c \<notin> set xs \<Longrightarrow> lastIndexOfFrom c k found xs = found"
  by (induction xs arbitrary: k found) auto

lemma lastIndexOfFrom_last:
  "c \<notin> set p \<Longrightarrow> lastIndexOfFrom c k found (u @ c # p) = int (k + length u)"
  by (induction u arbitrary: k found) (simp_all add: lastIndexOfFrom_absent)

lemma lastIndexOf_last: "c \<notin> set p \<Longrightarrow> lastIndexOf (u @ c # p) c = int (length u)"
  by (simp add: lastIndexOf_def lastIndexOfFrom_last)

lemma lastIndexOf_absent: "c \<notin> set s \<Longrightarrow> lastIndexOf s c = - 1"
  by (simp add: lastIndexOf_def lastIndexOfFrom_absent)

lemma substring_prefix: "substring (u @ c # p) 0 (int (length u)) = u"
  by (simp add: substring_def Let_def)

lemma substringFrom_suffix: "substringFrom (u @ c # p) (int (length u) + 1) = p"
  by (simp add: substringFrom_def substring_def Let_def nat_add_distrib)

text \<open>
  C7, as amended. When the global tunnel configuration is present, the result is built
  from it alone, with its host, port and \<^verbatim>\<open>proxyAuth\<close>: it is the same under every
  environment and every behaviour of the URL parser. When it is absent and
  \<^verbatim>\<open>HTTPS_PROXY\<close> is set to a string that is not empty, the configuration is the one read
  from \<^verbatim>\<open>HTTPS_PROXY\<close>, whatever \<^verbatim>\<open>HTTP_PROXY\<close> is; when \<^verbatim>\<open>HTTPS_PROXY\<close> is not set or is
  the empty string, it is the one read from a non-empty \<^verbatim>\<open>HTTP_PROXY\<close>, and there is
  none when \<^verbatim>\<open>HTTP_PROXY\<close> is not set or empty either. A proxy URL that fails to parse
  gives no configuration and no error.
\<close>

theorem C7_proxy_precedence:
  "getProxyConfig (Some t) e newURL = getProxyConfig (Some t) e' newURL'
   \<and> map_option host (getProxyConfig (Some t) e newURL) = Some (tunnel_host t)
   \<and> map_option port (getProxyConfig (Some t) e newURL) = Some (showInt (tunnel_port t))
   \<and> map_option proxyAuth (getProxyConfig (Some t) e newURL) = Some (tunnel_proxyAuth t)
   \<and> (e ''HTTPS_PROXY'' = Some h \<and> h \<noteq> [] \<longrightarrow>
        getProxyConfig None e newURL =
          (case newURL h of
             None \<Rightarrow> None
           | Some u \<Rightarrow>
               Some \<lparr>host = url_hostname u, port = url_port u,
                      username = Some (url_username u), password = Some (url_password u),
                      proxyAuth = (if url_username u \<noteq> [] \<and> url_password u \<noteq> []
                                   then Some (url_username u @ '':'' @ url_password u)
                                   else None)\<rparr>))
   \<and> ((e ''HTTPS_PROXY'' = None \<or> e ''HTTPS_PROXY'' = Some [])
        \<and> e ''HTTP_PROXY'' = Some p \<and> p \<noteq> [] \<longrightarrow>
        getProxyConfig None e newURL =
          (case newURL p of
             None \<Rightarrow> None
           | Some u \<Rightarrow>
               Some \<lparr>host = url_hostname u, port = url_port u,
                      username = Some (url_username u), password = Some (url_password u),
                      proxyAuth = (if url_username u \<noteq> [] \<and> url_password u \<noteq> []
                                   then Some (url_username u @ '':'' @ url_password u)
                                   else None)\<rparr>))
   \<and> ((e ''HTTPS_PROXY'' = None \<or> e ''HTTPS_PROXY'' = Some [])
        \<and> (e ''HTTP_PROXY'' = None \<or> e ''HTTP_PROXY'' = Some []) \<longrightarrow>
        getProxyConfig None e newURL = None)"
proof (intro conjI impI)
  show "getProxyConfig (Some t) e newURL = getProxyConfig (Some t) e' newURL'"
    by (simp add: getProxyConfig_def)
  show "map_option host (getProxyConfig (Some t) e newURL) = Some (tunnel_host t)"
    by (simp add: getProxyConfig_def Let_def split: prod.splits)
  show "map_option port (getProxyConfig (Some t) e newURL) = Some (showInt (tunnel_port t))"
    by (simp add: getProxyConfig_def Let_def split: prod.splits)
  show "map_option proxyAuth (getProxyConfig (Some t) e newURL) = Some (tunnel_proxyAuth t)"
    by (simp add: getProxyConfig_def Let_def split: prod.splits)
next
  assume "e ''HTTPS_PROXY'' = Some h \<and> h \<noteq> []"
  then show "getProxyConfig None e newURL =
          (case newURL h of
             None \<Rightarrow> None
           | Some u \<Rightarrow>
               Some \<lparr>host = url_hostname u, port = url_port u,
                      username = Some (url_username u), password = Some (url_password u),
                      proxyAuth = (if url_username u \<noteq> [] \<and> url_password u \<noteq> []
                                   then Some (url_username u @ '':'' @ url_password u)
                                   else None)\<rparr>)"
    by (simp add: getProxyConfig_def truthyStr_def Let_def split: option.splits)
next
  assume "(e ''HTTPS_PROXY'' = None \<or> e ''HTTPS_PROXY'' = Some [])
        \<and> e ''HTTP_PROXY'' = Some p \<and> p \<noteq> []"
  then show "getProxyConfig None e newURL =
          (case newURL p of
             None \<Rightarrow> None
           | Some u \<Rightarrow>
               Some \<lparr>host = url_hostname u, port = url_port u,
                      username = Some (url_username u), password = Some (url_password u),
                      proxyAuth = (if url_username u \<noteq> [] \<and> url_password u \<noteq> []
                                   then Some (url_username u @ '':'' @ url_password u)
                                   else None)\<rparr>)"
    by (auto simp: getProxyConfig_def truthyStr_def Let_def split: option.splits)
next
  assume "(e ''HTTPS_PROXY'' = None \<or> e ''HTTPS_PROXY'' = Some [])
        \<and> (e ''HTTP_PROXY'' = None \<or> e ''HTTP_PROXY'' = Some [])"
  then show "getProxyConfig None e newURL = None"
    by (auto simp: getProxyConfig_def truthyStr_def Let_def split: option.splits)
qed

text \<open>
  With no tunnel configuration: both variables set and \<^verbatim>\<open>HTTPS_PROXY\<close> a URL;
  \<^verbatim>\<open>HTTPS_PROXY\<close> a string that does not parse beside a good \<^verbatim>\<open>HTTP_PROXY\<close>;
  \<^verbatim>\<open>HTTP_PROXY\<close> alone, a URL and then a string that does not parse; and neither set.
  With a tunnel configuration, both variables set.
\<close>

theorem C7_proxy_precedence_witness:
  "getProxyConfig None
      [''HTTPS_PROXY'' \<mapsto> ''https://user:pw@secure:3128'',
       ''HTTP_PROXY'' \<mapsto> ''http://proxy:8080''] exampleURL
     = Some \<lparr>host = ''secure'', port = ''3128'', username = Some ''user'',
             password = Some ''pw'', proxyAuth = Some ''user:pw''\<rparr>
   \<and> getProxyConfig None
        [''HTTPS_PROXY'' \<mapsto> ''not a url'', ''HTTP_PROXY'' \<mapsto> ''http://proxy:8080'']
        exampleURL = None
   \<and> getProxyConfig None [''HTTP_PROXY'' \<mapsto> ''http://proxy:8080''] exampleURL
     = Some \<lparr>host = ''proxy'', port = ''8080'', username = Some [], password = Some [],
             proxyAuth = None\<rparr>
   \<and> getProxyConfig None [''HTTP_PROXY'' \<mapsto> ''not a url''] exampleURL = None
   \<and> getProxyConfig None Map.empty exampleURL = None
   \<and> map_option host (getProxyConfig
        (Some \<lparr>tunnel_host = ''tunnel'', tunnel_port = 3128, tunnel_proxyAuth = None\<rparr>)
        [''HTTPS_PROXY'' \<mapsto> ''https://user:pw@secure:3128'',
         ''HTTP_PROXY'' \<mapsto> ''http://proxy:8080''] exampleURL) = Some ''tunnel''"
  using C7_proxy_precedence
      [where e = "[''HTTPS_PROXY'' \<mapsto> ''https://user:pw@secure:3128'',
                   ''HTTP_PROXY'' \<mapsto> ''http://proxy:8080'']"
         and h = "''https://user:pw@secure:3128''" and newURL = exampleURL
         and t = "\<lparr>tunnel_host = ''tunnel'', tunnel_port = 3128, tunnel_proxyAuth = None\<rparr>"]
    C7_proxy_precedence
      [where e = "[''HTTPS_PROXY'' \<mapsto> ''not a url'', ''HTTP_PROXY'' \<mapsto> ''http://proxy:8080'']"
         and h = "''not a url''" and newURL = exampleURL]
    C7_proxy_precedence
      [where e = "[''HTTP_PROXY'' \<mapsto> ''http://proxy:8080'']" and newURL = exampleURL
         and p = "''http://proxy:8080''"]
    C7_proxy_precedence
      [where e = "[''HTTP_PROXY'' \<mapsto> ''not a url'']" and newURL = exampleURL
         and p = "''not a url''"]
    C7_proxy_precedence [where e = Map.empty and newURL = exampleURL]
  by (simp add: exampleURL_def)

text \<open>
  The preference does not hold when \<^verbatim>\<open>HTTPS_PROXY\<close> is set to the empty string: both
  variables are set, and the configuration is that of \<^verbatim>\<open>HTTP_PROXY\<close>, where
  \<^verbatim>\<open>HTTPS_PROXY\<close> alone gives none.
\<close>

theorem C7_empty_https_proxy_counterexample:
  "getProxyConfig None [''HTTPS_PROXY'' \<mapsto> [], ''HTTP_PROXY'' \<mapsto> ''http://proxy:8080''] exampleURL
     = Some \<lparr>host = ''proxy'', port = ''8080'', username = Some [], password = Some [],
             proxyAuth = None\<rparr>
   \<and> getProxyConfig None [''HTTPS_PROXY'' \<mapsto> []] exampleURL = None"
  by (simp add: getProxyConfig_def truthyStr_def exampleURL_def)

text \<open>
  C10. With the global tunnel configuration present: when its \<^verbatim>\<open>proxyAuth\<close> has a last
  colon that is not its first code unit, the username is the text before that colon
  and the password the text after it; when \<^verbatim>\<open>proxyAuth\<close> is absent, has no colon, or has
  its only colon at index 0, username and password are both absent. In every case the
  \<^verbatim>\<open>proxyAuth\<close> of the result is the raw value of the configuration.
\<close>

theorem C10_proxyAuth_split:
  "(tunnel_proxyAuth t = Some (u @ CHR '':'' # p) \<and> CHR '':'' \<notin> set p \<and> u \<noteq> [] \<longrightarrow>
      getProxyConfig (Some t) e newURL
        = Some \<lparr>host = tunnel_host t, port = showInt (tunnel_port t),
                username = Some u, password = Some p,
                proxyAuth = Some (u @ CHR '':'' # p)\<rparr>)
   \<and> (tunnel_proxyAuth t = None
        \<or> (\<exists>pa. tunnel_proxyAuth t = Some pa
              \<and> (CHR '':'' \<notin> set pa \<or> (\<exists>p'. pa = CHR '':'' # p' \<and> CHR '':'' \<notin> set p'))) \<longrightarrow>
      getProxyConfig (Some t) e newURL
        = Some \<lparr>host = tunnel_host t, port = showInt (tunnel_port t),
                username = None, password = None,
                proxyAuth = tunnel_proxyAuth t\<rparr>)"
proof (intro conjI impI)
  assume h: "tunnel_proxyAuth t = Some (u @ CHR '':'' # p) \<and> CHR '':'' \<notin> set p \<and> u \<noteq> []"
  then have ix: "lastIndexOf (u @ CHR '':'' # p) CHR '':'' = int (length u)"
    by (simp add: lastIndexOf_last)
  from h have pos: "0 < int (length u)" by simp
  from h show "getProxyConfig (Some t) e newURL
        = Some \<lparr>host = tunnel_host t, port = showInt (tunnel_port t),
                username = Some u, password = Some p,
                proxyAuth = Some (u @ CHR '':'' # p)\<rparr>"
    using pos by (simp add: getProxyConfig_def ix Let_def substring_prefix substringFrom_suffix)
next
  assume h: "tunnel_proxyAuth t = None
        \<or> (\<exists>pa. tunnel_proxyAuth t = Some pa
              \<and> (CHR '':'' \<notin> set pa \<or> (\<exists>p'. pa = CHR '':'' # p' \<and> CHR '':'' \<notin> set p')))"
  have zero: "\<And>p'. CHR '':'' \<notin> set p' \<Longrightarrow> lastIndexOf (CHR '':'' # p') CHR '':'' = 0"
    using lastIndexOf_last [of "CHR '':''" _ "[]"] by simp
  from h show "getProxyConfig (Some t) e newURL
        = Some \<lparr>host = tunnel_host t, port = showInt (tunnel_port t),
                username = None, password = None,
                proxyAuth = tunnel_proxyAuth t\<rparr>"
    by (auto simp: getProxyConfig_def Let_def lastIndexOf_absent zero)
qed

text \<open>A user name with a colon in it, a colon at index 0 only, and no \<^verbatim>\<open>proxyAuth\<close>.\<close>

theorem C10_proxyAuth_split_witness:
  "getProxyConfig (Some \<lparr>tunnel_host = ''proxy'', tunnel_port = 8080, tunnel_proxyAuth = Some ''us:er:pw''\<rparr>)
      Map.empty exampleURL
     = Some \<lparr>host = ''proxy'', port = ''8080'', username = Some ''us:er'', password = Some ''pw'',
             proxyAuth = Some ''us:er:pw''\<rparr>
   \<and> getProxyConfig (Some \<lparr>tunnel_host = ''proxy'', tunnel_port = 8080, tunnel_proxyAuth = Some '':pw''\<rparr>)
      Map.empty exampleURL
     = Some \<lparr>host = ''proxy'', port = ''8080'', username = None, password = None,
             proxyAuth = Some '':pw''\<rparr>
   \<and> getProxyConfig (Some \<lparr>tunnel_host = ''proxy'', tunnel_port = 8080, tunnel_proxyAuth = None\<rparr>)
      Map.empty exampleURL
     = Some \<lparr>host = ''proxy'', port = ''8080'', username = None, password = None,
             proxyAuth = None\<rparr>"
  using C10_proxyAuth_split [where t = "\<lparr>tunnel_host = ''proxy'', tunnel_port = 8080, tunnel_proxyAuth = Some ''us:er:pw''\<rparr>"
              and u = "''us:er''" and p = "''pw''" and e = Map.empty and newURL = exampleURL]
    C10_proxyAuth_split [where t = "\<lparr>tunnel_host = ''proxy'', tunnel_port = 8080, tunnel_proxyAuth = Some '':pw''\<rparr>"
              and e = Map.empty and newURL = exampleURL]
    C10_proxyAuth_split [where t = "\<lparr>tunnel_host = ''proxy'', tunnel_port = 8080, tunnel_proxyAuth = None\<rparr>"
              and e = Map.empty and newURL = exampleURL]
  by (simp add: showInt_def showNat.simps digitChar_def)

end
